theory Spec2Isabelle
  imports Main "HOL-Library.AList" "HOL-Library.Multiset"
begin

section \<open>Tour scheduling service: a shallow embedding\<close>

text \<open>
  The development follows \<^verbatim>\<open>app/errors.py\<close>, \<^verbatim>\<open>app/models.py\<close>,
  \<^verbatim>\<open>app/storage.py\<close> and \<^verbatim>\<open>app/service.py\<close>.

  \<^item> A timezone-aware \<^verbatim>\<open>datetime\<close> is the instant it denotes: an \<open>int\<close> of
    microseconds since 1970-01-01T00:00:00 UTC. Comparison, \<^verbatim>\<open>timedelta\<close> arithmetic and
    \<^verbatim>\<open>astimezone(timezone.utc)\<close> depend on nothing else.
  \<^item> A \<^verbatim>\<open>date\<close> is its day number (days since 1970-01-01). The rate-limit map is keyed
    by \<^verbatim>\<open>day.isoformat()\<close> and cleanup compares these strings; for the four-digit years of
    Python's \<^verbatim>\<open>date\<close> the ISO string is an order-preserving injection of the day number,
    so the key is modelled by the day number itself.
  \<^item> Python dictionaries keep insertion order; each of the three maps of the storage is an
    association list, written with \<open>AList.update\<close> (overwrite in place, or append) and
    \<open>AList.delete\<close>.
  \<^item> Every exception is a value \<open>Inl err\<close>; every operation that can mutate the storage
    returns its outcome together with the storage as the call leaves it, also when it raises.
  \<^item> The readings of \<^verbatim>\<open>datetime.now(timezone.utc)\<close> and the value of \<^verbatim>\<open>uuid4().hex\<close>
    are arguments of the operation that reads them.
\<close>

subsection \<open>Errors\<close>

datatype app_error =
    BadRequestError string "string option"
  | ConflictError string
  | NotFoundError string
  | RateLimitError string

fun code :: "app_error \<Rightarrow> string" where
  "code (BadRequestError m f) = ''BAD_REQUEST''"
| "code (ConflictError m) = ''CONFLICT''"
| "code (NotFoundError m) = ''NOT_FOUND''"
| "code (RateLimitError m) = ''RATE_LIMIT''"

fun status_code :: "app_error \<Rightarrow> int" where
  "status_code (BadRequestError m f) = 400"
| "status_code (ConflictError m) = 409"
| "status_code (NotFoundError m) = 404"
| "status_code (RateLimitError m) = 429"

subsection \<open>Time\<close>

type_synonym instant = int
type_synonym day = int

text \<open>A \<^verbatim>\<open>datetime\<close> as the caller passes it: naive (wall-clock microseconds, no zone), or
  aware (the UTC instant it denotes and its UTC offset in minutes).\<close>

datatype datetime = Naive int | Aware instant int

definition usec_per_day :: int where
  "usec_per_day = 86400000000"

text \<open>\<^verbatim>\<open>timedelta(hours=24)\<close> and \<^verbatim>\<open>timedelta(days=1)\<close>.\<close>

definition hours24 :: int where
  "hours24 = 86400000000"

text \<open>\<^verbatim>\<open>now.date()\<close> of a UTC datetime.\<close>

definition date_of :: "instant \<Rightarrow> day" where
  "date_of t = t div usec_per_day"

text \<open>\<^verbatim>\<open>datetime.combine(d, datetime.min.time(), tzinfo=timezone.utc)\<close>.\<close>

definition day_start_of :: "day \<Rightarrow> instant" where
  "day_start_of d = d * usec_per_day"

subsubsection \<open>\<^verbatim>\<open>datetime.isoformat()\<close> of a UTC datetime\<close>

text \<open>Python renders a UTC-aware datetime as \<^verbatim>\<open>YYYY-MM-DDTHH:MM:SS[.ffffff]+00:00\<close>, the
  fraction present exactly when the microsecond field is not zero. The calendar date of a
  day number is computed in the proleptic Gregorian calendar.\<close>

definition digit :: "int \<Rightarrow> char" where
  "digit n = ''0123456789'' ! nat (n mod 10)"

text \<open>The last \<open>w\<close> decimal digits of \<open>n\<close>, padded with zeros: \<^verbatim>\<open>"%0wd" % n\<close> for
  \<open>0 \<le> n < 10 ^ w\<close>.\<close>

fun zpad :: "nat \<Rightarrow> int \<Rightarrow> string" where
  "zpad 0 n = []"
| "zpad (Suc w) n = zpad w (n div 10) @ [digit n]"

definition civil_from_days :: "int \<Rightarrow> int \<times> int \<times> int" where
  "civil_from_days z0 =
    (let z = z0 + 719468;
         era = z div 146097;
         doe = z - era * 146097;
         yoe = (doe - doe div 1460 + doe div 36524 - doe div 146096) div 365;
         y = yoe + era * 400;
         doy = doe - (365 * yoe + yoe div 4 - yoe div 100);
         mp = (5 * doy + 2) div 153;
         d = doy - (153 * mp + 2) div 5 + 1;
         m = (if mp < 10 then mp + 3 else mp - 9)
     in (if m \<le> 2 then y + 1 else y, m, d))"

definition isoformat :: "instant \<Rightarrow> string" where
  "isoformat t =
    (let (y, m, d) = civil_from_days (t div usec_per_day);
         us = t mod usec_per_day;
         secs = us div 1000000;
         frac = us mod 1000000
     in zpad 4 y @ ''-'' @ zpad 2 m @ ''-'' @ zpad 2 d @ ''T''
        @ zpad 2 (secs div 3600) @ '':'' @ zpad 2 (secs div 60 mod 60) @ '':''
        @ zpad 2 (secs mod 60)
        @ (if frac = 0 then [] else ''.'' @ zpad 6 frac) @ ''+00:00'')"

subsection \<open>Domain models\<close>

datatype TourStatus = BOOKED | CANCELLED

record tour =
  t_id :: string
  t_property_id :: string
  t_customer_id :: string
  t_start_at :: instant
  t_end_at :: instant
  t_status :: TourStatus
  t_created_at :: instant
  t_updated_at :: instant

text \<open>\<^verbatim>\<open>Tour.cancel\<close>; \<open>clock\<close> is the reading of \<^verbatim>\<open>datetime.now\<close> inside it.\<close>

definition cancel :: "tour \<Rightarrow> instant \<Rightarrow> tour" where
  "cancel t clock =
    (if t_status t \<noteq> CANCELLED then t\<lparr>t_status := CANCELLED, t_updated_at := clock\<rparr> else t)"

record idempotency_record =
  r_key :: string
  r_tour_id :: string
  r_fingerprint :: string
  r_created_at :: instant
  r_expires_at :: instant

record rate_limit_counter =
  c_customer_id :: string
  c_day :: day
  c_count :: int

definition increment :: "rate_limit_counter \<Rightarrow> rate_limit_counter" where
  "increment c = c\<lparr>c_count := c_count c + 1\<rparr>"

subsection \<open>Storage\<close>

record storage =
  tours :: "(string \<times> tour) list"
  idempotency :: "(string \<times> idempotency_record) list"
  rate_limits :: "((string \<times> day) \<times> rate_limit_counter) list"

definition empty_storage :: storage where
  "empty_storage = \<lparr>tours = [], idempotency = [], rate_limits = []\<rparr>"

definition storage_get_tour :: "storage \<Rightarrow> string \<Rightarrow> tour option" where
  "storage_get_tour st tour_id = map_of (tours st) tour_id"

definition save_tour :: "storage \<Rightarrow> tour \<Rightarrow> storage" where
  "save_tour st t = st\<lparr>tours := AList.update (t_id t) t (tours st)\<rparr>"

definition storage_list_tours :: "storage \<Rightarrow> tour list" where
  "storage_list_tours st = map snd (tours st)"

definition upsert_rate_limit :: "storage \<Rightarrow> rate_limit_counter \<Rightarrow> storage" where
  "upsert_rate_limit st c =
    st\<lparr>rate_limits := AList.update (c_customer_id c, c_day c) c (rate_limits st)\<rparr>"

definition get_rate_limit :: "storage \<Rightarrow> string \<Rightarrow> day \<Rightarrow> rate_limit_counter option" where
  "get_rate_limit st customer_id day_iso = map_of (rate_limits st) (customer_id, day_iso)"

text \<open>\<open>clock\<close> is the reading of \<^verbatim>\<open>datetime.now\<close> inside the lookup. An expired record is
  deleted and reported as absent.\<close>

definition get_idempotency_record ::
  "storage \<Rightarrow> instant \<Rightarrow> string \<Rightarrow> idempotency_record option \<times> storage" where
  "get_idempotency_record st clock key =
    (case map_of (idempotency st) key of
       None \<Rightarrow> (None, st)
     | Some record \<Rightarrow>
         if r_expires_at record \<le> clock
         then (None, st\<lparr>idempotency := AList.delete key (idempotency st)\<rparr>)
         else (Some record, st))"

definition save_idempotency_record :: "storage \<Rightarrow> idempotency_record \<Rightarrow> storage" where
  "save_idempotency_record st record =
    st\<lparr>idempotency := AList.update (r_key record) record (idempotency st)\<rparr>"

definition cleanup_rate_limits :: "storage \<Rightarrow> instant \<Rightarrow> storage" where
  "cleanup_rate_limits st now =
    st\<lparr>rate_limits := filter (\<lambda>(key, c). \<not> snd key < date_of now) (rate_limits st)\<rparr>"

subsection \<open>Service\<close>

definition ensure_utc :: "datetime \<Rightarrow> string \<Rightarrow> app_error + instant" where
  "ensure_utc dt field =
    (case dt of
       Naive w \<Rightarrow> Inl (BadRequestError ''timestamp must be timezone-aware'' (Some field))
     | Aware t off \<Rightarrow> Inr t)"

definition overlaps :: "instant \<Rightarrow> instant \<Rightarrow> instant \<Rightarrow> instant \<Rightarrow> bool" where
  "overlaps start_a end_a start_b end_b \<longleftrightarrow> start_a < end_b \<and> start_b < end_a"

text \<open>\<^verbatim>\<open>sep.join(parts)\<close>.\<close>

fun join :: "string \<Rightarrow> string list \<Rightarrow> string" where
  "join sep [] = []"
| "join sep [x] = x"
| "join sep (x # y # ys) = x @ sep @ join sep (y # ys)"

definition fingerprint :: "string \<Rightarrow> string \<Rightarrow> instant \<Rightarrow> instant \<Rightarrow> string" where
  "fingerprint property_id customer_id start_at end_at =
    join ''|'' [property_id, customer_id, isoformat start_at, isoformat end_at]"

text \<open>\<open>uuid_hex\<close> is the value of \<^verbatim>\<open>uuid4().hex\<close>.\<close>

definition generate_tour_id :: "string \<Rightarrow> string" where
  "generate_tour_id uuid_hex = ''tour_'' @ take 12 uuid_hex"

definition get_or_create_rate_limit ::
  "storage \<Rightarrow> string \<Rightarrow> day \<Rightarrow> rate_limit_counter \<times> storage" where
  "get_or_create_rate_limit st customer_id day_key =
    (case get_rate_limit st customer_id day_key of
       Some counter \<Rightarrow> (counter, st)
     | None \<Rightarrow>
         (let counter = \<lparr>c_customer_id = customer_id, c_day = day_key, c_count = 0\<rparr>
          in (counter, upsert_rate_limit st counter)))"

text \<open>The loop of \<^verbatim>\<open>_ensure_no_overlap\<close> over the snapshot of all tours.\<close>

fun no_overlap_loop :: "tour list \<Rightarrow> string \<Rightarrow> instant \<Rightarrow> instant \<Rightarrow> app_error + unit" where
  "no_overlap_loop [] property_id start_at end_at = Inr ()"
| "no_overlap_loop (t # ts) property_id start_at end_at =
    (if t_property_id t \<noteq> property_id then no_overlap_loop ts property_id start_at end_at
     else if t_status t \<noteq> BOOKED then no_overlap_loop ts property_id start_at end_at
     else if overlaps (t_start_at t) (t_end_at t) start_at end_at
       then Inl (ConflictError ''overlapping tour for property'')
     else no_overlap_loop ts property_id start_at end_at)"

definition ensure_no_overlap ::
  "storage \<Rightarrow> string \<Rightarrow> instant \<Rightarrow> instant \<Rightarrow> app_error + unit" where
  "ensure_no_overlap st property_id start_at end_at =
    no_overlap_loop (storage_list_tours st) property_id start_at end_at"

text \<open>Python's truthiness of \<^verbatim>\<open>str | None\<close>: \<^verbatim>\<open>None\<close> and the empty string are false.\<close>

definition truthy :: "string option \<Rightarrow> bool" where
  "truthy s \<longleftrightarrow> (case s of None \<Rightarrow> False | Some k \<Rightarrow> k \<noteq> [])"

text \<open>Lines 58 to 101 of \<^verbatim>\<open>create_tour\<close>: quota, overlap check and commit.\<close>

definition create_fresh ::
  "storage \<Rightarrow> instant \<Rightarrow> string \<Rightarrow> string \<Rightarrow> string \<Rightarrow> instant \<Rightarrow> instant
    \<Rightarrow> string option \<Rightarrow> string \<Rightarrow> (app_error + tour \<times> bool) \<times> storage" where
  "create_fresh st now uuid_hex property_id customer_id start_at_utc end_at_utc
      idempotency_key fp =
    (let st2 = cleanup_rate_limits st now;
         day_key = date_of now;
         (counter, st3) = get_or_create_rate_limit st2 customer_id day_key
     in if c_count counter \<ge> 3
        then (Inl (RateLimitError ''daily tour creation limit reached''), st3)
        else
          (case ensure_no_overlap st3 property_id start_at_utc end_at_utc of
             Inl err \<Rightarrow> (Inl err, st3)
           | Inr u \<Rightarrow>
               (let t = \<lparr>t_id = generate_tour_id uuid_hex,
                         t_property_id = property_id,
                         t_customer_id = customer_id,
                         t_start_at = start_at_utc,
                         t_end_at = end_at_utc,
                         t_status = BOOKED,
                         t_created_at = now,
                         t_updated_at = now\<rparr>;
                    st4 = save_tour st3 t;
                    st5 = upsert_rate_limit st4 (increment counter);
                    st6 = (if truthy idempotency_key
                           then save_idempotency_record st5
                                  \<lparr>r_key = the idempotency_key,
                                   r_tour_id = t_id t,
                                   r_fingerprint = fp,
                                   r_created_at = now,
                                   r_expires_at = now + hours24\<rparr>
                           else st5)
                in (Inr (t, True), st6))))"

text \<open>\<^verbatim>\<open>TourService.create_tour\<close>. \<open>now\<close> is the reading of the clock at line 43,
  \<open>clock\<close> the reading inside \<^verbatim>\<open>get_idempotency_record\<close>.\<close>

definition create_tour ::
  "storage \<Rightarrow> instant \<Rightarrow> instant \<Rightarrow> string \<Rightarrow> string \<Rightarrow> string \<Rightarrow> datetime \<Rightarrow> datetime
    \<Rightarrow> string option \<Rightarrow> (app_error + tour \<times> bool) \<times> storage" where
  "create_tour st now clock uuid_hex property_id customer_id start_at end_at idempotency_key =
    (case ensure_utc start_at ''start_at'' of
       Inl err \<Rightarrow> (Inl err, st)
     | Inr start_at_utc \<Rightarrow>
     (case ensure_utc end_at ''end_at'' of
       Inl err \<Rightarrow> (Inl err, st)
     | Inr end_at_utc \<Rightarrow>
       if start_at_utc \<ge> end_at_utc
       then (Inl (BadRequestError ''end_at must be after start_at'' (Some ''end_at'')), st)
       else
         (let fp = fingerprint property_id customer_id start_at_utc end_at_utc;
              (record, st1) =
                (if truthy idempotency_key
                 then get_idempotency_record st clock (the idempotency_key)
                 else (None, st))
          in case record of
               None \<Rightarrow>
                 create_fresh st1 now uuid_hex property_id customer_id start_at_utc end_at_utc
                   idempotency_key fp
             | Some r \<Rightarrow>
                 if r_fingerprint r \<noteq> fp
                 then (Inl (ConflictError
                         ''idempotency key already used with different parameters''), st1)
                 else
                   (case storage_get_tour st1 (r_tour_id r) of
                      Some existing \<Rightarrow> (Inr (existing, False), st1)
                    | None \<Rightarrow>
                        create_fresh st1 now uuid_hex property_id customer_id start_at_utc
                          end_at_utc idempotency_key fp))))"

definition get_tour :: "storage \<Rightarrow> string \<Rightarrow> app_error + tour" where
  "get_tour st tour_id =
    (case storage_get_tour st tour_id of
       None \<Rightarrow> Inl (NotFoundError ''tour not found'')
     | Some t \<Rightarrow> Inr t)"

definition matches_filters :: "tour \<Rightarrow> string option \<Rightarrow> day option \<Rightarrow> bool" where
  "matches_filters t property_id date_filter =
    (if truthy property_id \<and> t_property_id t \<noteq> the property_id then False
     else
       (case date_filter of
          None \<Rightarrow> True
        | Some d \<Rightarrow>
            (let day_start = day_start_of d;
                 day_end = day_start + hours24
             in if \<not> overlaps (t_start_at t) (t_end_at t) day_start day_end then False
                else True)))"

text \<open>\<^verbatim>\<open>xs[i:j]\<close> for Python integers \<open>i\<close> and \<open>j\<close>: a negative index counts from the end,
  and both are clamped to the list.\<close>

definition py_slice :: "'a list \<Rightarrow> int \<Rightarrow> int \<Rightarrow> 'a list" where
  "py_slice xs i j =
    (let n = int (length xs);
         i' = (if i < 0 then max (i + n) 0 else min i n);
         j' = (if j < 0 then max (j + n) 0 else min j n)
     in take (nat (j' - i')) (drop (nat i') xs))"

text \<open>\<^verbatim>\<open>list.sort(key=..., reverse=...)\<close> is stable in both directions: with
  \<^verbatim>\<open>reverse=True\<close> elements with equal keys keep their original order.\<close>

definition py_sort :: "('a \<Rightarrow> int) \<Rightarrow> bool \<Rightarrow> 'a list \<Rightarrow> 'a list" where
  "py_sort f reverse xs = (if reverse then rev (sort_key f (rev xs)) else sort_key f xs)"

definition list_tours ::
  "storage \<Rightarrow> string option \<Rightarrow> day option \<Rightarrow> string \<Rightarrow> int \<Rightarrow> int
    \<Rightarrow> app_error + tour list \<times> nat" where
  "list_tours st property_id date_filter sort_arg page page_size =
    (let all_tours = storage_list_tours st;
         filtered = filter (\<lambda>t. matches_filters t property_id date_filter) all_tours;
         (reverse, sort_field) =
            (case sort_arg of
               c # rest \<Rightarrow> if c = CHR ''-'' then (True, rest) else (False, sort_arg)
             | [] \<Rightarrow> (False, sort_arg))
     in if sort_field \<noteq> ''start_at''
        then Inl (BadRequestError ''unsupported sort field'' (Some ''sort''))
        else
          (let sorted_tours = py_sort t_start_at reverse filtered;
               total = length sorted_tours;
               start_index = (page - 1) * page_size;
               end_index = start_index + page_size
           in Inr (py_slice sorted_tours start_index end_index, total)))"

text \<open>\<^verbatim>\<open>TourService.cancel_tour\<close>; \<open>clock\<close> is the reading of the clock in \<^verbatim>\<open>Tour.cancel\<close>.\<close>

definition cancel_tour :: "storage \<Rightarrow> instant \<Rightarrow> string \<Rightarrow> (app_error + unit) \<times> storage" where
  "cancel_tour st clock tour_id =
    (case storage_get_tour st tour_id of
       None \<Rightarrow> (Inl (NotFoundError ''tour not found''), st)
     | Some t \<Rightarrow> (Inr (), save_tour st (cancel t clock)))"

section \<open>Specification-level predicates and example states\<close>

text \<open>The overlap condition of the specification: same property, status Booked, and
  half-open overlap \<open>existing.start < requested.end \<and> requested.start < existing.end\<close>.\<close>

definition conflicting :: "tour \<Rightarrow> string \<Rightarrow> instant \<Rightarrow> instant \<Rightarrow> bool" where
  "conflicting t property_id start_at end_at \<longleftrightarrow>
     t_property_id t = property_id \<and> t_status t = BOOKED \<and>
     t_start_at t < end_at \<and> start_at < t_end_at t"

text \<open>Every tour is stored under its own id (\<^verbatim>\<open>save_tour\<close> is the only writer).\<close>

definition keyed_by_id :: "storage \<Rightarrow> bool" where
  "keyed_by_id st \<longleftrightarrow> list_all (\<lambda>(k, t). t_id t = k) (tours st)"

text \<open>The count the quota check of \<^verbatim>\<open>create_tour\<close> reads for a customer at \<open>now\<close>: the
  stored counter of the customer for today, or 0 when there is none.\<close>

definition quota_used :: "storage \<Rightarrow> instant \<Rightarrow> string \<Rightarrow> int" where
  "quota_used st now customer_id =
     (case get_rate_limit st customer_id (date_of now) of
        None \<Rightarrow> 0
      | Some counter \<Rightarrow> c_count counter)"

text \<open>The idempotency paths of \<^verbatim>\<open>create_tour\<close> (lines 48 to 56) end the call: a live record
  of the key has another fingerprint, or its tour is still stored.\<close>

definition short_circuits :: "storage \<Rightarrow> instant \<Rightarrow> string option \<Rightarrow> string \<Rightarrow> bool" where
  "short_circuits st clock idempotency_key fp \<longleftrightarrow>
     truthy idempotency_key \<and>
     (case fst (get_idempotency_record st clock (the idempotency_key)) of
        None \<Rightarrow> False
      | Some r \<Rightarrow> r_fingerprint r \<noteq> fp \<or> storage_get_tour st (r_tour_id r) \<noteq> None)"

text \<open>The storage after the idempotency lookup of \<^verbatim>\<open>create_tour\<close>: an expired record
  of the key is purged.\<close>

definition lookup_state :: "storage \<Rightarrow> instant \<Rightarrow> string option \<Rightarrow> storage" where
  "lookup_state st clock idempotency_key =
     (if truthy idempotency_key
      then snd (get_idempotency_record st clock (the idempotency_key)) else st)"

text \<open>The storage after lines 58 to 60 of \<^verbatim>\<open>create_tour\<close>: past days' counters dropped,
  today's counter of the customer present.\<close>

definition quota_state :: "storage \<Rightarrow> instant \<Rightarrow> string \<Rightarrow> storage" where
  "quota_state st now customer_id =
     snd (get_or_create_rate_limit (cleanup_rate_limits st now) customer_id (date_of now))"

text \<open>The tour a successful create builds (lines 66 to 75).\<close>

definition new_tour ::
  "instant \<Rightarrow> string \<Rightarrow> string \<Rightarrow> string \<Rightarrow> instant \<Rightarrow> instant \<Rightarrow> tour" where
  "new_tour now uuid_hex property_id customer_id start_at end_at =
     \<lparr>t_id = generate_tour_id uuid_hex, t_property_id = property_id,
      t_customer_id = customer_id, t_start_at = start_at, t_end_at = end_at,
      t_status = BOOKED, t_created_at = now, t_updated_at = now\<rparr>"

text \<open>Every counter is stored under its own customer and day (\<^verbatim>\<open>upsert_rate_limit\<close> is the
  only writer).\<close>

definition counters_keyed :: "storage \<Rightarrow> bool" where
  "counters_keyed st \<longleftrightarrow>
     list_all (\<lambda>(k, c). (c_customer_id c, c_day c) = k) (rate_limits st)"

subsection \<open>Example states\<close>

text \<open>Times of the examples, in microseconds: \<open>3600000000\<close> is 01:00 and \<open>5400000000\<close> is
  01:30 on 1970-01-01; the clock reads 0.\<close>

definition tour_a :: tour where
  "tour_a = \<lparr>t_id = ''tour_aaaaaaaaaaaa'', t_property_id = ''p1'', t_customer_id = ''c1'',
     t_start_at = 3600000000, t_end_at = 5400000000, t_status = BOOKED,
     t_created_at = 0, t_updated_at = 0\<rparr>"

definition st_a :: storage where
  "st_a = snd (create_tour empty_storage 0 0 ''aaaaaaaaaaaaaaaa'' ''p1'' ''c1''
                 (Aware 3600000000 0) (Aware 5400000000 0) (Some ''k1''))"

definition rec_a :: idempotency_record where
  "rec_a = \<lparr>r_key = ''k1'', r_tour_id = ''tour_aaaaaaaaaaaa'',
     r_fingerprint = ''p1|c1|1970-01-01T01:00:00+00:00|1970-01-01T01:30:00+00:00'',
     r_created_at = 0, r_expires_at = 86400000000\<rparr>"

text \<open>\<open>st_a\<close> after its tour is cancelled at clock 7.\<close>

definition st_b :: storage where
  "st_b = snd (cancel_tour st_a 7 ''tour_aaaaaaaaaaaa'')"


subsection \<open>Sequences of operations\<close>

text \<open>The four operations of the service with their arguments; a create also carries its
  two clock readings and the value of \<^verbatim>\<open>uuid4().hex\<close>, a cancel its clock reading.\<close>

datatype operation =
    CreateTour instant instant string string string datetime datetime "string option"
  | CancelTour instant string
  | GetTour string
  | ListTours "string option" "day option" string int int

datatype outcome =
    Created "app_error + tour \<times> bool"
  | CancelDone "app_error + unit"
  | Got "app_error + tour"
  | Listed "app_error + tour list \<times> nat"

fun step :: "storage \<Rightarrow> operation \<Rightarrow> outcome \<times> storage" where
  "step st (CreateTour now clock uuid_hex property_id customer_id start_at end_at key) =
     (let (res, st') = create_tour st now clock uuid_hex property_id customer_id start_at end_at key
      in (Created res, st'))"
| "step st (CancelTour clock tour_id) =
     (let (res, st') = cancel_tour st clock tour_id in (CancelDone res, st'))"
| "step st (GetTour tour_id) = (Got (get_tour st tour_id), st)"
| "step st (ListTours property_id date_filter sort_arg page page_size) =
     (Listed (list_tours st property_id date_filter sort_arg page page_size), st)"

fun run :: "storage \<Rightarrow> operation list \<Rightarrow> outcome list \<times> storage" where
  "run st [] = ([], st)"
| "run st (x # xs) =
     (let (out, st1) = step st x; (outs, st2) = run st1 xs in (out # outs, st2))"

text \<open>A repetition of a create with the same logical parameters: its own clock readings,
  uuid and UTC offsets, the same property, customer, instants and key.\<close>

definition repeat_of ::
  "string \<Rightarrow> string \<Rightarrow> instant \<Rightarrow> instant \<Rightarrow> string
    \<Rightarrow> instant \<times> instant \<times> string \<times> int \<times> int \<Rightarrow> operation" where
  "repeat_of p c s e k = (\<lambda>(now', clock', uuid', os', oe').
     CreateTour now' clock' uuid' p c (Aware s os') (Aware e oe') (Some k))"




section \<open>Auxiliary lemmas\<close>

lemma st_a_value:
  "st_a = \<lparr>tours = [(''tour_aaaaaaaaaaaa'', tour_a)],
           idempotency = [(''k1'', \<lparr>r_key = ''k1'', r_tour_id = ''tour_aaaaaaaaaaaa'',
              r_fingerprint = ''p1|c1|1970-01-01T01:00:00+00:00|1970-01-01T01:30:00+00:00'',
              r_created_at = 0, r_expires_at = 86400000000\<rparr>)],
           rate_limits = [((''c1'', 0), \<lparr>c_customer_id = ''c1'', c_day = 0, c_count = 1\<rparr>)]\<rparr>"
  by code_simp

lemma no_overlap_loop_iff:
  "no_overlap_loop ts p s e =
     (if list_ex (\<lambda>t. conflicting t p s e) ts
      then Inl (ConflictError ''overlapping tour for property'') else Inr ())"
  by (induction ts) (auto simp: conflicting_def overlaps_def)

lemma ensure_no_overlap_iff:
  "ensure_no_overlap st p s e =
     (if list_ex (\<lambda>t. conflicting t p s e) (storage_list_tours st)
      then Inl (ConflictError ''overlapping tour for property'') else Inr ())"
  by (simp add: ensure_no_overlap_def no_overlap_loop_iff)

lemma keyed_lookup:
  "keyed_by_id st \<Longrightarrow> storage_get_tour st k = Some t \<Longrightarrow> t_id t = k"
  unfolding keyed_by_id_def storage_get_tour_def
  by (auto simp: list_all_iff dest!: map_of_SomeD)

lemma cancel_id [simp]: "t_id (cancel t clock) = t_id t"
  by (simp add: cancel_def)

subsection \<open>The storage operations\<close>

lemma increment_simps [simp]:
  "c_customer_id (increment x) = c_customer_id x"
  "c_day (increment x) = c_day x"
  "c_count (increment x) = c_count x + 1"
  by (simp_all add: increment_def)

lemma map_of_filter_key:
  "map_of (filter (\<lambda>(k, v). P k) al) k' = (if P k' then map_of al k' else None)"
  by (induction al) auto

lemma get_rate_limit_cleanup:
  "get_rate_limit (cleanup_rate_limits st now) c d
     = (if d < date_of now then None else get_rate_limit st c d)"
  by (simp add: get_rate_limit_def cleanup_rate_limits_def map_of_filter_key [where P = "\<lambda>k. \<not> snd k < date_of now"])

lemma tours_cleanup [simp]: "tours (cleanup_rate_limits st now) = tours st"
  by (simp add: cleanup_rate_limits_def)

lemma idempotency_cleanup [simp]: "idempotency (cleanup_rate_limits st now) = idempotency st"
  by (simp add: cleanup_rate_limits_def)

lemma tours_get_or_create [simp]: "tours (snd (get_or_create_rate_limit st c d)) = tours st"
  by (simp add: get_or_create_rate_limit_def upsert_rate_limit_def Let_def split: option.split)

lemma idempotency_get_or_create [simp]:
  "idempotency (snd (get_or_create_rate_limit st c d)) = idempotency st"
  by (simp add: get_or_create_rate_limit_def upsert_rate_limit_def Let_def split: option.split)

lemma tours_get_idempotency_record [simp]:
  "tours (snd (get_idempotency_record st clock k)) = tours st"
  by (simp add: get_idempotency_record_def split: option.split)

lemma rate_limits_get_idempotency_record [simp]:
  "rate_limits (snd (get_idempotency_record st clock k)) = rate_limits st"
  by (simp add: get_idempotency_record_def split: option.split)

lemma tours_lookup_state [simp]: "tours (lookup_state st clock key) = tours st"
  by (simp add: lookup_state_def)

lemma rate_limits_lookup_state [simp]: "rate_limits (lookup_state st clock key) = rate_limits st"
  by (simp add: lookup_state_def)

lemma tours_quota_state [simp]: "tours (quota_state st now c) = tours st"
  by (simp add: quota_state_def)

lemma idempotency_quota_state [simp]: "idempotency (quota_state st now c) = idempotency st"
  by (simp add: quota_state_def)

lemma quota_used_lookup_state [simp]:
  "quota_used (lookup_state st clock key) now c = quota_used st now c"
  by (simp add: quota_used_def get_rate_limit_def)

lemma list_tours_lookup_state [simp]:
  "storage_list_tours (lookup_state st clock key) = storage_list_tours st"
  by (simp add: storage_list_tours_def)

lemma count_get_or_create:
  "c_count (fst (get_or_create_rate_limit (cleanup_rate_limits st now) c (date_of now)))
     = quota_used st now c"
  by (simp add: get_or_create_rate_limit_def quota_used_def get_rate_limit_cleanup Let_def
      split: option.split)

subsection \<open>The paths of \<^verbatim>\<open>create_tour\<close>\<close>

lemma create_fresh_rate_limited:
  assumes "3 \<le> quota_used st now c"
  shows "create_fresh st now uuid p c s e key fp
           = (Inl (RateLimitError ''daily tour creation limit reached''), quota_state st now c)"
  using assms count_get_or_create [of st now c]
  by (simp add: create_fresh_def quota_state_def Let_def case_prod_beta)

lemma create_fresh_conflict:
  assumes "quota_used st now c < 3"
    and "list_ex (\<lambda>t. conflicting t p s e) (storage_list_tours st)"
  shows "create_fresh st now uuid p c s e key fp
           = (Inl (ConflictError ''overlapping tour for property''), quota_state st now c)"
proof -
  have l: "storage_list_tours (snd (get_or_create_rate_limit (cleanup_rate_limits st now) c (date_of now)))
             = storage_list_tours st"
    by (simp add: storage_list_tours_def)
  show ?thesis
    using assms count_get_or_create [of st now c] l
    by (simp add: create_fresh_def quota_state_def Let_def ensure_no_overlap_iff case_prod_beta)
qed

lemma create_fresh_ok:
  assumes "quota_used st now c < 3"
    and "\<not> list_ex (\<lambda>t. conflicting t p s e) (storage_list_tours st)"
  shows "fst (create_fresh st now uuid p c s e key fp) = Inr (new_tour now uuid p c s e, True)"
    and "tours (snd (create_fresh st now uuid p c s e key fp))
           = AList.update (generate_tour_id uuid) (new_tour now uuid p c s e) (tours st)"
    and "idempotency (snd (create_fresh st now uuid p c s e key fp))
           = (if truthy key
              then AList.update (the key)
                     \<lparr>r_key = the key, r_tour_id = generate_tour_id uuid, r_fingerprint = fp,
                      r_created_at = now, r_expires_at = now + hours24\<rparr> (idempotency st)
              else idempotency st)"
    and "rate_limits (snd (create_fresh st now uuid p c s e key fp))
           = (let counter = fst (get_or_create_rate_limit (cleanup_rate_limits st now) c (date_of now))
              in AList.update (c_customer_id counter, c_day counter) (increment counter)
                   (rate_limits (quota_state st now c)))"
proof -
  have l: "storage_list_tours (snd (get_or_create_rate_limit (cleanup_rate_limits st now) c (date_of now)))
             = storage_list_tours st"
    by (simp add: storage_list_tours_def)
  note facts = assms count_get_or_create [of st now c] l
  show "fst (create_fresh st now uuid p c s e key fp) = Inr (new_tour now uuid p c s e, True)"
    using facts
    by (simp add: create_fresh_def Let_def ensure_no_overlap_iff new_tour_def case_prod_beta)
  show "tours (snd (create_fresh st now uuid p c s e key fp))
           = AList.update (generate_tour_id uuid) (new_tour now uuid p c s e) (tours st)"
    using facts
    by (auto simp: create_fresh_def Let_def ensure_no_overlap_iff new_tour_def save_tour_def
        upsert_rate_limit_def save_idempotency_record_def case_prod_beta)
  show "idempotency (snd (create_fresh st now uuid p c s e key fp))
           = (if truthy key
              then AList.update (the key)
                     \<lparr>r_key = the key, r_tour_id = generate_tour_id uuid, r_fingerprint = fp,
                      r_created_at = now, r_expires_at = now + hours24\<rparr> (idempotency st)
              else idempotency st)"
    using facts
    by (auto simp: create_fresh_def Let_def ensure_no_overlap_iff new_tour_def save_tour_def
        upsert_rate_limit_def save_idempotency_record_def case_prod_beta)
  show "rate_limits (snd (create_fresh st now uuid p c s e key fp))
           = (let counter = fst (get_or_create_rate_limit (cleanup_rate_limits st now) c (date_of now))
              in AList.update (c_customer_id counter, c_day counter) (increment counter)
                   (rate_limits (quota_state st now c)))"
    using facts
    by (auto simp: create_fresh_def Let_def ensure_no_overlap_iff new_tour_def save_tour_def
        upsert_rate_limit_def save_idempotency_record_def quota_state_def case_prod_beta)
qed

lemma create_tour_through:
  assumes "s < e" and "\<not> short_circuits st clock key (fingerprint p c s e)"
  shows "create_tour st now clock uuid p c (Aware s os) (Aware e oe) key
           = create_fresh (lookup_state st clock key) now uuid p c s e key (fingerprint p c s e)"
  using assms
  by (auto simp: create_tour_def ensure_utc_def short_circuits_def lookup_state_def Let_def
      get_idempotency_record_def
      split: prod.split option.split if_splits)

lemma create_tour_replay:
  assumes "s < e" and "k \<noteq> []"
    and "map_of (idempotency st) k = Some r" and "clock < r_expires_at r"
    and "r_fingerprint r = fingerprint p c s e"
    and "storage_get_tour st (r_tour_id r) = Some t"
  shows "create_tour st now clock uuid p c (Aware s os) (Aware e oe) (Some k) = (Inr (t, False), st)"
  using assms
  by (simp add: create_tour_def ensure_utc_def truthy_def get_idempotency_record_def Let_def)

lemma create_tour_mismatch:
  assumes "s < e" and "k \<noteq> []"
    and "map_of (idempotency st) k = Some r" and "clock < r_expires_at r"
    and "r_fingerprint r \<noteq> fingerprint p c s e"
  shows "create_tour st now clock uuid p c (Aware s os) (Aware e oe) (Some k)
           = (Inl (ConflictError ''idempotency key already used with different parameters''), st)"
  using assms
  by (simp add: create_tour_def ensure_utc_def truthy_def get_idempotency_record_def Let_def)

lemma idempotency_lookup_state:
  "map_of (idempotency (lookup_state st clock key)) k
     = (if truthy key \<and> k = the key
           \<and> (\<exists>r. map_of (idempotency st) k = Some r \<and> r_expires_at r \<le> clock)
        then None else map_of (idempotency st) k)"
  by (auto simp: lookup_state_def get_idempotency_record_def delete_conv' split: option.split)

lemma get_rate_limit_quota_state:
  "get_rate_limit (quota_state st now c) c' d
     = (if d < date_of now then None
        else if c' = c \<and> d = date_of now
        then Some (case get_rate_limit st c d of
                     Some counter \<Rightarrow> counter
                   | None \<Rightarrow> \<lparr>c_customer_id = c, c_day = d, c_count = 0\<rparr>)
        else get_rate_limit st c' d)"
proof -
  let ?st2 = "cleanup_rate_limits st now"
  show ?thesis
  proof (cases "get_rate_limit ?st2 c (date_of now)")
    case None
    then have "quota_state st now c
                 = upsert_rate_limit ?st2 \<lparr>c_customer_id = c, c_day = date_of now, c_count = 0\<rparr>"
      by (simp add: quota_state_def get_or_create_rate_limit_def Let_def)
    moreover have "get_rate_limit st c (date_of now) = None"
      using None by (simp add: get_rate_limit_cleanup)
    ultimately show ?thesis
      using get_rate_limit_cleanup [of st now c' d]
      by (auto simp: upsert_rate_limit_def get_rate_limit_def update_conv')
  next
    case (Some counter)
    then have "quota_state st now c = ?st2"
      by (simp add: quota_state_def get_or_create_rate_limit_def)
    moreover have "get_rate_limit st c (date_of now) = Some counter"
      using Some by (simp add: get_rate_limit_cleanup)
    ultimately show ?thesis
      by (auto simp: get_rate_limit_cleanup)
  qed
qed

text \<open>Every call of \<^verbatim>\<open>create_tour\<close> takes one of six paths.\<close>

lemma create_tour_cases:
  fixes st now clock uuid p c sa ea key
  defines "call \<equiv> create_tour st now clock uuid p c sa ea key"
  obtains
    (invalid) m f where "call = (Inl (BadRequestError m f), st)"
  | (mismatch) s os e oe k r where
      "sa = Aware s os" "ea = Aware e oe" "s < e" "key = Some k" "k \<noteq> []"
      "map_of (idempotency st) k = Some r" "clock < r_expires_at r"
      "r_fingerprint r \<noteq> fingerprint p c s e"
      "call = (Inl (ConflictError ''idempotency key already used with different parameters''), st)"
  | (replay) s os e oe k r t where
      "sa = Aware s os" "ea = Aware e oe" "s < e" "key = Some k" "k \<noteq> []"
      "map_of (idempotency st) k = Some r" "clock < r_expires_at r"
      "r_fingerprint r = fingerprint p c s e"
      "storage_get_tour st (r_tour_id r) = Some t"
      "call = (Inr (t, False), st)"
  | (rate_limited) s os e oe where
      "sa = Aware s os" "ea = Aware e oe" "s < e"
      "\<not> short_circuits st clock key (fingerprint p c s e)"
      "3 \<le> quota_used st now c"
      "call = (Inl (RateLimitError ''daily tour creation limit reached''),
               quota_state (lookup_state st clock key) now c)"
  | (overlap) s os e oe where
      "sa = Aware s os" "ea = Aware e oe" "s < e"
      "\<not> short_circuits st clock key (fingerprint p c s e)"
      "quota_used st now c < 3"
      "list_ex (\<lambda>t. conflicting t p s e) (storage_list_tours st)"
      "call = (Inl (ConflictError ''overlapping tour for property''),
               quota_state (lookup_state st clock key) now c)"
  | (created) s os e oe where
      "sa = Aware s os" "ea = Aware e oe" "s < e"
      "\<not> short_circuits st clock key (fingerprint p c s e)"
      "quota_used st now c < 3"
      "\<not> list_ex (\<lambda>t. conflicting t p s e) (storage_list_tours st)"
      "call = create_fresh (lookup_state st clock key) now uuid p c s e key (fingerprint p c s e)"
      "fst call = Inr (new_tour now uuid p c s e, True)"
proof (cases sa)
  case (Naive w)
  then have "call = (Inl (BadRequestError ''timestamp must be timezone-aware'' (Some ''start_at'')), st)"
    by (simp add: call_def create_tour_def ensure_utc_def)
  then show ?thesis by (rule invalid)
next
  case sa: (Aware s os)
  show ?thesis
  proof (cases ea)
    case (Naive w)
    then have "call = (Inl (BadRequestError ''timestamp must be timezone-aware'' (Some ''end_at'')), st)"
      by (simp add: call_def create_tour_def ensure_utc_def sa)
    then show ?thesis by (rule invalid)
  next
    case ea: (Aware e oe)
    show ?thesis
    proof (cases "s < e")
      case False
      then have "call = (Inl (BadRequestError ''end_at must be after start_at'' (Some ''end_at'')), st)"
        by (simp add: call_def create_tour_def ensure_utc_def sa ea)
      then show ?thesis by (rule invalid)
    next
      case lt: True
      let ?fp = "fingerprint p c s e"
      show ?thesis
      proof (cases "short_circuits st clock key ?fp")
        case True
        then obtain k r where k: "key = Some k" "k \<noteq> []"
          and r: "map_of (idempotency st) k = Some r" "clock < r_expires_at r"
          and hit: "r_fingerprint r \<noteq> ?fp \<or> storage_get_tour st (r_tour_id r) \<noteq> None"
          by (auto simp: short_circuits_def truthy_def get_idempotency_record_def
              split: option.splits if_splits)
        show ?thesis
        proof (cases "r_fingerprint r = ?fp")
          case False
          with lt k r have "call = (Inl (ConflictError
              ''idempotency key already used with different parameters''), st)"
            by (simp add: call_def sa ea create_tour_mismatch)
          with sa ea lt k r False show ?thesis by (rule mismatch)
        next
          case same: True
          with hit obtain t where t: "storage_get_tour st (r_tour_id r) = Some t" by auto
          with lt k r same have "call = (Inr (t, False), st)"
            by (simp add: call_def sa ea create_tour_replay)
          with sa ea lt k r same t show ?thesis by (rule replay)
        qed
      next
        case through: False
        let ?st1 = "lookup_state st clock key"
        have call: "call = create_fresh ?st1 now uuid p c s e key ?fp"
          using lt through by (simp add: call_def sa ea create_tour_through)
        show ?thesis
        proof (cases "3 \<le> quota_used st now c")
          case True
          then have "call = (Inl (RateLimitError ''daily tour creation limit reached''),
               quota_state ?st1 now c)"
            by (simp add: call create_fresh_rate_limited)
          with sa ea lt through True show ?thesis by (rule rate_limited)
        next
          case False
          then have q: "quota_used st now c < 3" by simp
          then have q1: "quota_used ?st1 now c < 3" by simp
          show ?thesis
          proof (cases "list_ex (\<lambda>t. conflicting t p s e) (storage_list_tours st)")
            case True
            then have "list_ex (\<lambda>t. conflicting t p s e) (storage_list_tours ?st1)" by simp
            from create_fresh_conflict [OF q1 this]
            have "call = (Inl (ConflictError ''overlapping tour for property''),
               quota_state ?st1 now c)"
              by (simp add: call)
            with sa ea lt through q True show ?thesis by (rule overlap)
          next
            case False
            then have "\<not> list_ex (\<lambda>t. conflicting t p s e) (storage_list_tours ?st1)" by simp
            from create_fresh_ok(1) [OF q1 this]
            have "fst call = Inr (new_tour now uuid p c s e, True)"
              by (simp add: call)
            with sa ea lt through q False call show ?thesis by (rule created)
          qed
        qed
      qed
    qed
  qed
qed

lemma map_of_update_same: "map_of (AList.update k v al) k = Some v"
  by (simp add: update_conv')

lemma new_tour_simps [simp]:
  "t_id (new_tour now uuid p c s e) = generate_tour_id uuid"
  "t_property_id (new_tour now uuid p c s e) = p"
  "t_customer_id (new_tour now uuid p c s e) = c"
  "t_start_at (new_tour now uuid p c s e) = s"
  "t_end_at (new_tour now uuid p c s e) = e"
  "t_status (new_tour now uuid p c s e) = BOOKED"
  "t_created_at (new_tour now uuid p c s e) = now"
  "t_updated_at (new_tour now uuid p c s e) = now"
  by (simp_all add: new_tour_def)

lemma created_stored:
  assumes "create_tour st now clock uuid p c sa ea key = (Inr (t, True), st1)"
  obtains s os e oe where "sa = Aware s os" "ea = Aware e oe" "s < e"
    and "t = new_tour now uuid p c s e"
    and "storage_get_tour st1 (t_id t) = Some t"
    and "tours st1 = AList.update (t_id t) t (tours st)"
    and "truthy key \<Longrightarrow> map_of (idempotency st1) (the key)
           = Some \<lparr>r_key = the key, r_tour_id = t_id t, r_fingerprint = fingerprint p c s e,
                   r_created_at = now, r_expires_at = now + hours24\<rparr>"
    and "quota_used st now c < 3"
    and "\<not> list_ex (\<lambda>t. conflicting t p s e) (storage_list_tours st)"
    and "\<not> short_circuits st clock key (fingerprint p c s e)"
    and "st1 = snd (create_fresh (lookup_state st clock key) now uuid p c s e key
                     (fingerprint p c s e))"
proof (cases rule: create_tour_cases [of st now clock uuid p c sa ea key])
  case (created s os e oe)
  let ?st0 = "lookup_state st clock key"
  let ?fp = "fingerprint p c s e"
  have q: "quota_used ?st0 now c < 3"
    and n: "\<not> list_ex (\<lambda>t. conflicting t p s e) (storage_list_tours ?st0)"
    using created by simp_all
  have t: "t = new_tour now uuid p c s e" using created assms by simp
  have id: "t_id t = generate_tour_id uuid" by (simp add: t)
  have st1: "st1 = snd (create_fresh ?st0 now uuid p c s e key ?fp)"
    using created assms by simp
  have tours: "tours st1 = AList.update (t_id t) t (tours st)"
    using create_fresh_ok(2) [OF q n, of uuid key ?fp] by (simp add: st1 t)
  have get: "storage_get_tour st1 (t_id t) = Some t"
    by (simp add: storage_get_tour_def tours map_of_update_same)
  have idem: "map_of (idempotency st1) (the key)
           = Some \<lparr>r_key = the key, r_tour_id = t_id t, r_fingerprint = ?fp,
                   r_created_at = now, r_expires_at = now + hours24\<rparr>" if "truthy key"
    using create_fresh_ok(3) [OF q n, of uuid key ?fp] that
    by (simp add: st1 id map_of_update_same)
  from created(1-3) t get tours idem created(5,6,4) st1 show ?thesis by (rule that)
qed (use assms in auto)

lemma run_replays:
  assumes "s < e" and "k \<noteq> []"
    and "map_of (idempotency st) k = Some r"
    and "r_fingerprint r = fingerprint p c s e"
    and "storage_get_tour st (r_tour_id r) = Some t"
    and "\<forall>(now', clock', uuid', os', oe') \<in> set later. clock' < r_expires_at r"
  shows "run st (map (repeat_of p c s e k) later)
           = (replicate (length later) (Created (Inr (t, False))), st)"
  using assms(6)
proof (induction later)
  case Nil
  then show ?case by simp
next
  case (Cons x xs)
  obtain now' clock' uuid' os' oe' where x: "x = (now', clock', uuid', os', oe')"
    by (cases x) auto
  from Cons.prems x have "clock' < r_expires_at r" by simp
  with assms(1-5)
  have "create_tour st now' clock' uuid' p c (Aware s os') (Aware e oe') (Some k)
          = (Inr (t, False), st)"
    by (simp add: create_tour_replay)
  moreover from Cons have "run st (map (repeat_of p c s e k) xs)
           = (replicate (length xs) (Created (Inr (t, False))), st)" by simp
  ultimately show ?case by (simp add: x repeat_of_def)
qed

subsection \<open>The fingerprint\<close>








subsection \<open>The idempotency map\<close>






section \<open>The claims\<close>

subsection \<open>C6: cancelling\<close>

text \<open>
  C6. \<^verbatim>\<open>cancel_tour\<close> fails with Not-Found when no tour has the id. When the tour is
  stored, the call succeeds; it touches neither the idempotency map nor the rate-limit map,
  nor any other tour, nor the order of the tours; a Booked tour becomes Cancelled with
  \<open>updated_at\<close> set to the clock reading; for a tour that is already Cancelled the storage is
  left exactly as it was (so \<open>updated_at\<close> keeps the value of the first cancellation); and a
  second cancel after the first succeeds and changes nothing.
\<close>

theorem cancel_tour_correct:
  assumes "keyed_by_id st"
  shows "(case storage_get_tour st tid of
      None \<Rightarrow> cancel_tour st clock tid = (Inl (NotFoundError ''tour not found''), st)
    | Some t \<Rightarrow>
       (let st' = snd (cancel_tour st clock tid) in
        fst (cancel_tour st clock tid) = Inr () \<and>
        idempotency st' = idempotency st \<and> rate_limits st' = rate_limits st \<and>
        map fst (tours st') = map fst (tours st) \<and>
        (\<forall>other. other \<noteq> tid \<longrightarrow> storage_get_tour st' other = storage_get_tour st other) \<and>
        (t_status t = BOOKED \<longrightarrow>
           storage_get_tour st' tid = Some (t\<lparr>t_status := CANCELLED, t_updated_at := clock\<rparr>)) \<and>
        (t_status t = CANCELLED \<longrightarrow> st' = st) \<and>
        cancel_tour st' clock2 tid = (Inr (), st')))"
proof (cases "storage_get_tour st tid")
  case None
  then show ?thesis by (simp add: cancel_tour_def)
next
  case (Some t)
  have tid: "t_id t = tid" using assms Some by (rule keyed_lookup)
  define st' where "st' = save_tour st (cancel t clock)"
  have res: "cancel_tour st clock tid = (Inr (), st')"
    using Some by (simp add: cancel_tour_def st'_def)
  have look: "storage_get_tour st' tid = Some (cancel t clock)"
    by (simp add: st'_def save_tour_def storage_get_tour_def tid update_conv')
  have other: "other \<noteq> tid \<Longrightarrow> storage_get_tour st' other = storage_get_tour st other" for other
    by (simp add: st'_def save_tour_def storage_get_tour_def tid update_conv')
  have keys: "map fst (tours st') = map fst (tours st)"
    using Some
    by (auto simp: st'_def save_tour_def storage_get_tour_def tid update_keys
        dest!: map_of_SomeD intro: rev_image_eqI)
  have same: "t_status t = CANCELLED \<Longrightarrow> st' = st"
    using Some by (simp add: st'_def save_tour_def cancel_def storage_get_tour_def tid update_triv)
  have st2: "cancel (cancel t clock) clock2 = cancel t clock"
    by (simp add: cancel_def)
  have again: "cancel_tour st' clock2 tid = (Inr (), st')"
    using look
    by (simp add: cancel_tour_def st2)
       (simp add: st'_def save_tour_def tid)
  show ?thesis
    using Some res look other keys same again
    by (simp add: Let_def st'_def[symmetric] cancel_def save_tour_def)
       (cases "t_status t"; simp add: st'_def save_tour_def)
qed

text \<open>Witness: cancelling the tour of \<open>st_a\<close> at clock 7, then again at clock 9; and
  cancelling an id that is not stored.\<close>

theorem cancel_tour_correct_witness:
  "keyed_by_id st_a \<and>
   storage_get_tour st_a ''tour_aaaaaaaaaaaa'' = Some tour_a \<and>
   fst (cancel_tour st_a 7 ''tour_aaaaaaaaaaaa'') = Inr () \<and>
   storage_get_tour (snd (cancel_tour st_a 7 ''tour_aaaaaaaaaaaa'')) ''tour_aaaaaaaaaaaa''
     = Some (tour_a\<lparr>t_status := CANCELLED, t_updated_at := 7\<rparr>) \<and>
   cancel_tour (snd (cancel_tour st_a 7 ''tour_aaaaaaaaaaaa'')) 9 ''tour_aaaaaaaaaaaa''
     = (Inr (), snd (cancel_tour st_a 7 ''tour_aaaaaaaaaaaa''))"
proof -
  have k: "keyed_by_id st_a" by code_simp
  have g: "storage_get_tour st_a ''tour_aaaaaaaaaaaa'' = Some tour_a" by code_simp
  have b: "t_status tour_a = BOOKED" by code_simp
  show ?thesis
    using k g b cancel_tour_correct [OF k, where tid = "''tour_aaaaaaaaaaaa''" and clock = 7 and ?clock2.0 = 9]
    by (simp add: Let_def)
qed

subsection \<open>C1: the overlap check\<close>




subsection \<open>C10: replay after cancellation\<close>

text \<open>
  C10. A create whose non-empty idempotency key has an unexpired record with the request's
  fingerprint, and whose recorded tour is stored and Cancelled, returns that Cancelled tour
  with \<open>wasCreated = False\<close> and leaves the storage exactly as it was (no new tour, no
  conflict, no quota used), although the same request without the key, with quota left and
  no Booked tour overlapping, would create a tour.
\<close>

theorem replay_returns_cancelled_tour:
  assumes "s < e" and "k \<noteq> []"
    and "map_of (idempotency st) k = Some r" and "clock < r_expires_at r"
    and "r_fingerprint r = fingerprint p c s e"
    and "storage_get_tour st (r_tour_id r) = Some t" and "t_status t = CANCELLED"
  shows "create_tour st now clock uuid p c (Aware s os) (Aware e oe) (Some k) = (Inr (t, False), st)
         \<and> (quota_used st now c < 3
              \<and> \<not> list_ex (\<lambda>t'. conflicting t' p s e) (storage_list_tours st)
            \<longrightarrow> fst (create_tour st now clock uuid p c (Aware s os) (Aware e oe) None)
                  = Inr (new_tour now uuid p c s e, True))"
proof -
  have replay: "create_tour st now clock uuid p c (Aware s os) (Aware e oe) (Some k)
                  = (Inr (t, False), st)"
    using assms(1-6) by (rule create_tour_replay)
  have fresh: "fst (create_tour st now clock uuid p c (Aware s os) (Aware e oe) None)
                  = Inr (new_tour now uuid p c s e, True)"
    if q: "quota_used st now c < 3"
      and n: "\<not> list_ex (\<lambda>t'. conflicting t' p s e) (storage_list_tours st)"
  proof -
    have "\<not> short_circuits st clock None (fingerprint p c s e)"
      by (simp add: short_circuits_def truthy_def)
    with assms(1)
    have "create_tour st now clock uuid p c (Aware s os) (Aware e oe) None
            = create_fresh (lookup_state st clock None) now uuid p c s e None (fingerprint p c s e)"
      by (rule create_tour_through)
    moreover have "lookup_state st clock None = st"
      by (simp add: lookup_state_def truthy_def)
    ultimately show ?thesis
      using create_fresh_ok(1) [OF q n] by simp
  qed
  from replay fresh show ?thesis by blast
qed

text \<open>Witness: on \<open>st_b\<close> (tour A created with key \<open>k1\<close>, then cancelled at clock 7) the
  create is repeated with the key at clock 10, and tried without the key.\<close>

theorem replay_returns_cancelled_tour_witness:
  "create_tour st_b 10 10 ''eeeeeeeeeeeeeeee'' ''p1'' ''c1''
      (Aware 3600000000 0) (Aware 5400000000 0) (Some ''k1'')
     = (Inr (tour_a\<lparr>t_status := CANCELLED, t_updated_at := 7\<rparr>, False), st_b)
   \<and> fst (create_tour st_b 10 10 ''eeeeeeeeeeeeeeee'' ''p1'' ''c1''
      (Aware 3600000000 0) (Aware 5400000000 0) None)
     = Inr (new_tour 10 ''eeeeeeeeeeeeeeee'' ''p1'' ''c1'' 3600000000 5400000000, True)"
proof -
  have v: "(3600000000::int) < 5400000000" by simp
  have k: "''k1'' \<noteq> []" by simp
  have r: "map_of (idempotency st_b) ''k1'' = Some rec_a" by code_simp
  have x: "10 < r_expires_at rec_a" by code_simp
  have f: "r_fingerprint rec_a = fingerprint ''p1'' ''c1'' 3600000000 5400000000" by code_simp
  have g: "storage_get_tour st_b (r_tour_id rec_a)
             = Some (tour_a\<lparr>t_status := CANCELLED, t_updated_at := 7\<rparr>)" by code_simp
  have c: "t_status (tour_a\<lparr>t_status := CANCELLED, t_updated_at := 7\<rparr>) = CANCELLED" by simp
  have q: "quota_used st_b 10 ''c1'' < 3" by code_simp
  have n: "\<not> list_ex (\<lambda>t'. conflicting t' ''p1'' 3600000000 5400000000) (storage_list_tours st_b)"
    by code_simp
  from replay_returns_cancelled_tour [OF v k r x f g c, of 10 "''eeeeeeeeeeeeeeee''" 0 0] q n
  show ?thesis by simp
qed

subsection \<open>C5: failing operations\<close>

text \<open>
  C5, as amended. A failing \<^verbatim>\<open>cancel_tour\<close> leaves the storage unchanged
  (\<^verbatim>\<open>get_tour\<close> and \<^verbatim>\<open>list_tours\<close> of the service return no storage at all). A failing
  create never changes the tours map, writes no idempotency record and increments no
  counter. A create that fails validation or with the idempotency conflict leaves the
  whole storage unchanged. A create that fails with the rate-limit error or the overlap
  conflict has already run the lookup of the key, the cleanup and the lazy creation of the
  counter: the storage it leaves is \<open>quota_state (lookup_state st clock key) now c\<close>, which
  differs from the storage before the call at most by an expired record of the supplied
  key purged, counters of past days dropped, and a counter of count 0 inserted for the
  customer and today.
\<close>

theorem failing_operations_effects:
  "(fst (cancel_tour st clock' tid) = Inl err' \<longrightarrow> snd (cancel_tour st clock' tid) = st)
   \<and> (fst (create_tour st now clock uuid p c sa ea key) = Inl err \<longrightarrow>
       (let st' = snd (create_tour st now clock uuid p c sa ea key) in
          tours st' = tours st
        \<and> ((\<exists>m f. err = BadRequestError m f)
              \<or> err = ConflictError ''idempotency key already used with different parameters''
            \<longrightarrow> st' = st)
        \<and> (st' = st \<or>
             (err = RateLimitError ''daily tour creation limit reached''
                \<or> err = ConflictError ''overlapping tour for property'')
              \<and> st' = quota_state (lookup_state st clock key) now c)
        \<and> (\<forall>k. map_of (idempotency st') k = map_of (idempotency st) k
               \<or> key = Some k \<and> map_of (idempotency st') k = None
                  \<and> (\<exists>r. map_of (idempotency st) k = Some r \<and> r_expires_at r \<le> clock))
        \<and> (\<forall>c' d. get_rate_limit st' c' d = get_rate_limit st c' d
               \<or> d < date_of now \<and> get_rate_limit st' c' d = None
               \<or> c' = c \<and> d = date_of now \<and> get_rate_limit st c' d = None
                  \<and> get_rate_limit st' c' d
                      = Some \<lparr>c_customer_id = c, c_day = d, c_count = 0\<rparr>)))"
proof (intro conjI impI)
  assume "fst (cancel_tour st clock' tid) = Inl err'"
  then show "snd (cancel_tour st clock' tid) = st"
    by (simp add: cancel_tour_def split: option.splits)
next
  let ?call = "create_tour st now clock uuid p c sa ea key"
  let ?P = "\<lambda>st'. tours st' = tours st
        \<and> ((\<exists>m f. err = BadRequestError m f)
              \<or> err = ConflictError ''idempotency key already used with different parameters''
            \<longrightarrow> st' = st)
        \<and> (st' = st \<or>
             (err = RateLimitError ''daily tour creation limit reached''
                \<or> err = ConflictError ''overlapping tour for property'')
              \<and> st' = quota_state (lookup_state st clock key) now c)
        \<and> (\<forall>k. map_of (idempotency st') k = map_of (idempotency st) k
               \<or> key = Some k \<and> map_of (idempotency st') k = None
                  \<and> (\<exists>r. map_of (idempotency st) k = Some r \<and> r_expires_at r \<le> clock))
        \<and> (\<forall>c' d. get_rate_limit st' c' d = get_rate_limit st c' d
               \<or> d < date_of now \<and> get_rate_limit st' c' d = None
               \<or> c' = c \<and> d = date_of now \<and> get_rate_limit st c' d = None
                  \<and> get_rate_limit st' c' d
                      = Some \<lparr>c_customer_id = c, c_day = d, c_count = 0\<rparr>)"
  assume failed: "fst ?call = Inl err"
  have same: "?P st" if "err \<noteq> RateLimitError ''daily tour creation limit reached''"
    "err \<noteq> ConflictError ''overlapping tour for property''" "snd ?call = st"
    by simp
  let ?st' = "quota_state (lookup_state st clock key) now c"
  have idem: "map_of (idempotency ?st') k = map_of (idempotency st) k
               \<or> key = Some k \<and> map_of (idempotency ?st') k = None
                  \<and> (\<exists>r. map_of (idempotency st) k = Some r \<and> r_expires_at r \<le> clock)" for k
    by (auto simp: idempotency_lookup_state truthy_def split: option.splits)
  have rate: "get_rate_limit ?st' c' d = get_rate_limit st c' d
               \<or> d < date_of now \<and> get_rate_limit ?st' c' d = None
               \<or> c' = c \<and> d = date_of now \<and> get_rate_limit st c' d = None
                  \<and> get_rate_limit ?st' c' d
                      = Some \<lparr>c_customer_id = c, c_day = d, c_count = 0\<rparr>" for c' d
  proof -
    have l: "get_rate_limit (lookup_state st clock key) c'' d' = get_rate_limit st c'' d'" for c'' d'
      by (simp add: get_rate_limit_def)
    show ?thesis
      by (auto simp: get_rate_limit_quota_state l split: option.splits)
  qed
  have late: "?P ?st'" if "err = RateLimitError ''daily tour creation limit reached''
                \<or> err = ConflictError ''overlapping tour for property''"
    using that idem rate by auto
  have "?P (snd ?call)"
  proof (cases rule: create_tour_cases [of st now clock uuid p c sa ea key])
    case (invalid m f)
    with failed show ?thesis by auto
  next
    case (mismatch s os e oe k r)
    with failed show ?thesis by auto
  next
    case (replay s os e oe k r t)
    with failed show ?thesis by simp
  next
    case (rate_limited s os e oe)
    with failed late show ?thesis by simp
  next
    case (overlap s os e oe)
    with failed late show ?thesis by simp
  next
    case (created s os e oe)
    with failed show ?thesis by simp
  qed
  then show "let st' = snd ?call in ?P st'" by (simp add: Let_def)
qed

text \<open>Witness: on \<open>st_a\<close>, cancelling an unknown id, and customer \<open>c2\<close> asking for the
  booked interval of property \<open>p1\<close>.\<close>

theorem failing_operations_effects_witness:
  "fst (cancel_tour st_a 7 ''tour_000000000000'') = Inl (NotFoundError ''tour not found'')
   \<and> snd (cancel_tour st_a 7 ''tour_000000000000'') = st_a
   \<and> fst (create_tour st_a 0 0 ''dddddddddddddddd'' ''p1'' ''c2''
          (Aware 3600000000 0) (Aware 5400000000 0) None)
       = Inl (ConflictError ''overlapping tour for property'')
   \<and> tours (snd (create_tour st_a 0 0 ''dddddddddddddddd'' ''p1'' ''c2''
          (Aware 3600000000 0) (Aware 5400000000 0) None)) = tours st_a"
proof -
  have a: "fst (cancel_tour st_a 7 ''tour_000000000000'') = Inl (NotFoundError ''tour not found'')"
    by code_simp
  have b: "fst (create_tour st_a 0 0 ''dddddddddddddddd'' ''p1'' ''c2''
          (Aware 3600000000 0) (Aware 5400000000 0) None)
       = Inl (ConflictError ''overlapping tour for property'')"
    by code_simp
  from failing_operations_effects [of st_a 7 "''tour_000000000000''"
      "NotFoundError ''tour not found''" 0 0 "''dddddddddddddddd''" "''p1''" "''c2''"
      "Aware 3600000000 0" "Aware 5400000000 0" None
      "ConflictError ''overlapping tour for property''"] a b
  show ?thesis by (simp add: Let_def)
qed

text \<open>The claim as stated fails: the create of the witness fails with the overlap conflict
  and leaves a new counter for \<open>c2\<close> in the rate-limit map.\<close>

theorem failing_operations_effects_counterexample:
  "fst (create_tour st_a 0 0 ''dddddddddddddddd'' ''p1'' ''c2''
          (Aware 3600000000 0) (Aware 5400000000 0) None)
       = Inl (ConflictError ''overlapping tour for property'')
   \<and> rate_limits st_a
       = [((''c1'', 0), \<lparr>c_customer_id = ''c1'', c_day = 0, c_count = 1\<rparr>)]
   \<and> rate_limits (snd (create_tour st_a 0 0 ''dddddddddddddddd'' ''p1'' ''c2''
          (Aware 3600000000 0) (Aware 5400000000 0) None))
       = [((''c1'', 0), \<lparr>c_customer_id = ''c1'', c_day = 0, c_count = 1\<rparr>),
          ((''c2'', 0), \<lparr>c_customer_id = ''c2'', c_day = 0, c_count = 0\<rparr>)]"
  by code_simp

subsection \<open>C2: repeating a create with its idempotency key\<close>

text \<open>
  C2, as amended. Let a create with a non-empty idempotency key succeed with
  \<open>wasCreated = True\<close> at clock reading \<open>now\<close>. Then every later create in a row that
  supplies the same key and the same logical parameters (property, customer, normalized
  start and end instants; the UTC offsets, clock readings and uuid values may differ), and
  whose key lookup happens before \<open>now + 24h\<close>, returns the same tour with
  \<open>wasCreated = False\<close> and leaves the storage exactly as the first call left it: no
  quota is consumed and no overlap check decides anything.
\<close>

theorem repeated_create_is_idempotent:
  assumes "create_tour st now clock uuid p c (Aware s os) (Aware e oe) (Some k)
             = (Inr (t, True), st1)"
    and "k \<noteq> []"
    and "\<forall>(now', clock', uuid', os', oe') \<in> set later. clock' < now + hours24"
  shows "run st1 (map (repeat_of p c s e k) later)
           = (replicate (length later) (Created (Inr (t, False))), st1)"
proof -
  from assms(1) obtain s' os' e' oe' where
    a: "Aware s os = Aware s' os'" "Aware e oe = Aware e' oe'" "s' < e'"
    and get: "storage_get_tour st1 (t_id t) = Some t"
    and idem: "truthy (Some k) \<Longrightarrow> map_of (idempotency st1) (the (Some k))
           = Some \<lparr>r_key = the (Some k), r_tour_id = t_id t,
                   r_fingerprint = fingerprint p c s' e',
                   r_created_at = now, r_expires_at = now + hours24\<rparr>"
    by (rule created_stored) blast
  let ?r = "\<lparr>r_key = k, r_tour_id = t_id t, r_fingerprint = fingerprint p c s e,
              r_created_at = now, r_expires_at = now + hours24\<rparr>"
  from a have se: "s' = s" "e' = e" "s < e" by simp_all
  have r: "map_of (idempotency st1) k = Some ?r"
    using idem assms(2) by (simp add: truthy_def se)
  show ?thesis
    using se(3) assms(2) r _ _ _
  proof (rule run_replays)
    show "r_fingerprint ?r = fingerprint p c s e" by simp
    show "storage_get_tour st1 (r_tour_id ?r) = Some t" using get by simp
    show "\<forall>(now', clock', uuid', os', oe') \<in> set later. clock' < r_expires_at ?r"
      using assms(3) by simp
  qed
qed

text \<open>Witness: the create that gives \<open>st_a\<close>, repeated twice with key \<open>k1\<close>, at clock
  readings of 10 seconds and of 23 hours, the second time with the instants written with
  an offset of 60 minutes.\<close>

theorem repeated_create_is_idempotent_witness:
  "run st_a [CreateTour 10000000 10000000 ''bbbbbbbbbbbbbbbb'' ''p1'' ''c1''
               (Aware 3600000000 0) (Aware 5400000000 0) (Some ''k1''),
             CreateTour 82800000000 82800000000 ''cccccccccccccccc'' ''p1'' ''c1''
               (Aware 3600000000 60) (Aware 5400000000 60) (Some ''k1'')]
     = ([Created (Inr (tour_a, False)), Created (Inr (tour_a, False))], st_a)"
proof -
  have first: "create_tour empty_storage 0 0 ''aaaaaaaaaaaaaaaa'' ''p1'' ''c1''
                 (Aware 3600000000 0) (Aware 5400000000 0) (Some ''k1'')
               = (Inr (tour_a, True), st_a)"
    by code_simp
  have k: "''k1'' \<noteq> []" by simp
  have later: "\<forall>(now', clock', uuid', os', oe')
                 \<in> set [(10000000, 10000000, ''bbbbbbbbbbbbbbbb'', 0, 0),
                         (82800000000, 82800000000, ''cccccccccccccccc'', 60, 60)].
               clock' < 0 + hours24"
    by (simp add: hours24_def)
  from repeated_create_is_idempotent [OF first k later]
  show ?thesis by (simp add: repeat_of_def)
qed

text \<open>The claim as stated fails in two ways. After 24 hours the record of the key has
  expired: the repetition is treated as a fresh create, is refused for overlapping the
  tour of the first call, and changes the storage. And an empty key is no key: the
  repetition is refused for the overlap as well.\<close>

theorem repeated_create_is_idempotent_counterexample:
  "create_tour empty_storage 0 0 ''aaaaaaaaaaaaaaaa'' ''p1'' ''c1''
      (Aware 3600000000 0) (Aware 5400000000 0) (Some ''k1'') = (Inr (tour_a, True), st_a)
   \<and> fst (create_tour st_a 86400000000 86400000000 ''bbbbbbbbbbbbbbbb'' ''p1'' ''c1''
          (Aware 3600000000 0) (Aware 5400000000 0) (Some ''k1''))
       = Inl (ConflictError ''overlapping tour for property'')
   \<and> snd (create_tour st_a 86400000000 86400000000 ''bbbbbbbbbbbbbbbb'' ''p1'' ''c1''
          (Aware 3600000000 0) (Aware 5400000000 0) (Some ''k1''))
       = st_a \<lparr>idempotency := [],
               rate_limits := [((''c1'', 1), \<lparr>c_customer_id = ''c1'', c_day = 1, c_count = 0\<rparr>)]\<rparr>
   \<and> fst (create_tour empty_storage 0 0 ''aaaaaaaaaaaaaaaa'' ''p1'' ''c1''
          (Aware 3600000000 0) (Aware 5400000000 0) (Some ''''))
       = Inr (tour_a, True)
   \<and> fst (create_tour
            (snd (create_tour empty_storage 0 0 ''aaaaaaaaaaaaaaaa'' ''p1'' ''c1''
                    (Aware 3600000000 0) (Aware 5400000000 0) (Some '''')))
            1 1 ''bbbbbbbbbbbbbbbb'' ''p1'' ''c1''
            (Aware 3600000000 0) (Aware 5400000000 0) (Some ''''))
       = Inl (ConflictError ''overlapping tour for property'')"
  by code_simp

subsection \<open>C3: reusing a key with other parameters\<close>




subsection \<open>C9: the life of an idempotency record\<close>



end
